theory Spec2Isabelle
  imports Complex_Main "HOL-Library.AList"
begin

section \<open>Python values\<close>

text \<open>
  A Python \<open>str\<close> is modelled as a \<open>string\<close> of ASCII characters. Exceptions are values
  of the type \<open>error\<close>; a statement that may raise returns \<open>error + 'a\<close>, and a
  \<open>try ... except Exception\<close> is a case distinction on that sum.
\<close>

datatype error =
    ValueError string
  | RuntimeError string
  | FileNotFoundError string
  | ZeroDivisionError
  | IndexError
  | AttributeError
  | FfmpegError "string option"
  | ExternalError string


text \<open>The ASCII characters for which \<open>str.isspace\<close> holds; \<open>str.strip()\<close> removes them
  from both ends.\<close>

definition whitespace :: "char list" where
  "whitespace =
     [CHR 0x09, CHR 0x0A, CHR 0x0B, CHR 0x0C, CHR 0x0D,
      CHR 0x1C, CHR 0x1D, CHR 0x1E, CHR 0x1F, CHR '' '']"

definition isspace :: "char \<Rightarrow> bool" where
  "isspace c = (c \<in> set whitespace)"

definition strip :: "string \<Rightarrow> string" where
  "strip s = rev (dropWhile isspace (rev (dropWhile isspace s)))"

definition lower_char :: "char \<Rightarrow> char" where
  "lower_char c =
     (case map_of (zip ''ABCDEFGHIJKLMNOPQRSTUVWXYZ'' ''abcdefghijklmnopqrstuvwxyz'') c of
        Some d \<Rightarrow> d
      | None \<Rightarrow> c)"

definition lower :: "string \<Rightarrow> string" where
  "lower s = map lower_char s"

text \<open>Truthiness of an \<open>Optional[str]\<close>: neither \<open>None\<close> nor empty.\<close>

fun truthy_str :: "string option \<Rightarrow> bool" where
  "truthy_str None = False"
| "truthy_str (Some s) = (s \<noteq> [])"



section \<open>Language codes (\<open>app/utils/language_utils.py\<close>)\<close>

definition LANGUAGE_NAME_MAP :: "(string \<times> string) list" where
  "LANGUAGE_NAME_MAP =
     [(''english'', ''en''), (''hebrew'', ''he''), (''arabic'', ''ar''),
      (''chinese'', ''zh''), (''japanese'', ''ja''), (''korean'', ''ko''),
      (''french'', ''fr''), (''spanish'', ''es''), (''german'', ''de''),
      (''russian'', ''ru''), (''hindi'', ''hi'')]"

text \<open>
  \<open>normalize_lang_code\<close>: strip and lowercase; a two-letter value of the table is returned;
  otherwise \<open>lang.split('-')[0]\<close> replaces a string containing a hyphen, and the table is
  consulted with the string itself as the default.
\<close>

definition normalize_lang_code :: "string \<Rightarrow> string" where
  "normalize_lang_code lang0 =
     (let lang = lower (strip lang0) in
      if length lang = 2 \<and> lang \<in> set (map snd LANGUAGE_NAME_MAP) then lang
      else
        let lang = (if CHR ''-'' \<in> set lang
                    then takeWhile (\<lambda>c. c \<noteq> CHR ''-'') lang else lang)
        in (case map_of LANGUAGE_NAME_MAP lang of
              Some code \<Rightarrow> code
            | None \<Rightarrow> lang))"

lemmas lang_defs =
  normalize_lang_code_def lower_def lower_char_def strip_def isspace_def whitespace_def
  LANGUAGE_NAME_MAP_def


section \<open>Subtitle layout (\<open>VideoService._calculate_subtitle_properties\<close>)\<close>

text \<open>
  Python's \<open>int(x)\<close> on a float truncates towards zero. The float arithmetic of the source
  is modelled by exact arithmetic on \<open>real\<close>.
\<close>

definition py_int :: "real \<Rightarrow> int" where
  "py_int x = (if x < 0 then \<lceil>x\<rceil> else \<lfloor>x\<rfloor>)"

record layout =
  font_size :: int
  max_lines :: int
  margin_v :: int
  line_height :: int
  h_margin :: int
  max_chars :: int

text \<open>Truthiness of \<open>user_font_size: Optional[int]\<close>.\<close>

fun truthy_int :: "int option \<Rightarrow> bool" where
  "truthy_int None = False"
| "truthy_int (Some n) = (n \<noteq> 0)"

definition is_vertical :: "int \<Rightarrow> int \<Rightarrow> bool" where
  "is_vertical width height = (real_of_int width / real_of_int height < 0.6)"

text \<open>The body of the \<open>try\<close>: the division \<open>width / height\<close> raises when \<open>height\<close> is 0.\<close>

definition calculate_subtitle_properties_body ::
    "int \<Rightarrow> int \<Rightarrow> int option \<Rightarrow> error + layout" where
  "calculate_subtitle_properties_body width height user_font_size =
     (if height = 0 then Inl ZeroDivisionError
      else if is_vertical width height then
        (let h_margin = max (real_of_int width * 0.06) 15;
             v_margin = real_of_int height * 0.08;
             char_per_line = 42;
             base_size =
               (if truthy_int user_font_size
                then real_of_int (min (max (the user_font_size) 12) 20)
                else (let base_dimension = real_of_int (min width height) * 0.038;
                          size_multiplier = 0.92;
                          base_size = base_dimension * size_multiplier
                      in min (max base_size 14) 20));
             line_spacing = py_int (base_size * 0.25)
         in Inr \<lparr> font_size = py_int base_size, max_lines = 1,
                  margin_v = py_int v_margin,
                  line_height = py_int (base_size + real_of_int line_spacing),
                  h_margin = py_int h_margin, max_chars = char_per_line \<rparr>)
      else
        (let base_dimension = real_of_int height * 0.042;
             size_multiplier = 1.0;
             h_margin = max (real_of_int width * 0.12) 50;
             safe_zone = 0.82;
             base_size =
               (if truthy_int user_font_size
                then real_of_int (min (max (the user_font_size) 22) 44)
                else min (max (base_dimension * size_multiplier) 22) 44);
             line_spacing = py_int (base_size * 0.3);
             v_margin = real_of_int height * 0.06;
             char_per_line = py_int ((real_of_int width * safe_zone) / (base_size * 0.6));
             char_per_line = min (max char_per_line 20) 50
         in Inr \<lparr> font_size = py_int base_size, max_lines = 2,
                  margin_v = py_int v_margin,
                  line_height = py_int (base_size + real_of_int line_spacing),
                  h_margin = py_int h_margin, max_chars = char_per_line \<rparr>))"

definition default_layout :: layout where
  "default_layout =
     \<lparr> font_size = 24, max_lines = 2, margin_v = 20, line_height = 28,
       h_margin = 50, max_chars = 40 \<rparr>"

definition calculate_subtitle_properties :: "int \<Rightarrow> int \<Rightarrow> int option \<Rightarrow> layout" where
  "calculate_subtitle_properties width height user_font_size =
     (case calculate_subtitle_properties_body width height user_font_size of
        Inr dimensions \<Rightarrow> dimensions
      | Inl e \<Rightarrow> default_layout)"


section \<open>The service state and the outside world\<close>

text \<open>
  The fields of \<open>VideoService\<close> that the pipeline reads and writes, the files that exist,
  and a log of the calls made to the outside world (model repository, model runtime,
  remote services, record store, media tool). The outside world is a record of oracles;
  each takes the number of calls made so far, so that the same request may be answered
  differently at different times.
\<close>

text \<open>A segment \<open>{'start': ..., 'end': ..., 'text': ...}\<close>.\<close>

record segment =
  seg_start :: real
  seg_end :: real
  seg_text :: string

text \<open>
  A progress message as \<open>_send_progress\<close> builds it, before \<open>json.dumps\<close>: step, progress,
  status and the entries of \<open>data\<close>.
\<close>

datatype payload = PStr string | PInt int | PSegments "segment list" | PUtcNow

record progress_event =
  ev_step :: string
  ev_progress :: int
  ev_status :: string
  ev_data :: "(string \<times> payload) list"

text \<open>
  What the speech service answers (\<open>verbose_json\<close>, after \<open>model_dump\<close>): a key that is missing
  is \<open>None\<close>; a key that is present has the type of the response schema.
\<close>

record raw_segment =
  raw_start :: "real option"
  raw_end :: "real option"
  raw_text :: "string option"

record whisper_response =
  language :: "string option"
  segments :: "raw_segment list option"

definition hex_digits :: "char list" where
  "hex_digits = ''0123456789abcdefABCDEF''"

text \<open>\<open>ObjectId.is_valid\<close> on a string: 24 hexadecimal digits.\<close>

definition ObjectId_is_valid :: "string \<Rightarrow> bool" where
  "ObjectId_is_valid oid = (length oid = 24 \<and> (\<forall>c \<in> set oid. c \<in> set hex_digits))"

text \<open>
  A bson \<open>ObjectId\<close>, by the string \<open>str\<close> gives for it. The identifiers that \<open>ObjectId()\<close>
  makes and the \<open>_id\<close> of a document of the store are of this type.
\<close>

typedef object_id = "{oid :: string. ObjectId_is_valid oid}"
proof
  show "''000000000000000000000000'' \<in> {oid :: string. ObjectId_is_valid oid}"
    by (simp add: ObjectId_is_valid_def hex_digits_def)
qed

text \<open>A document of the \<open>videos\<close> collection, as far as the pipeline reads it.\<close>

record video_doc =
  doc_id :: object_id
  doc_segments :: "segment list option"

text \<open>The requests made to the media tool.\<close>

datatype ffmpeg_request =
    ExtractAudio string string
  | Probe string
  | Render string string string string layout int int bool
  | FallbackRender string string string

datatype marian_model = MarianMTModel string
datatype marian_tokenizer = MarianTokenizer string

text \<open>
  An entry of \<open>self.translation_models\<close>: \<open>Direct m t\<close> is
  \<open>{'model': m, 'tokenizer': t}\<close>, and \<open>Pivot (m1, m2) (t1, t2)\<close> is
  \<open>{'model': [m1, m2], 'tokenizer': [t1, t2]}\<close>.
\<close>

datatype model_info =
    Direct marian_model marian_tokenizer
  | Pivot "marian_model \<times> marian_model" "marian_tokenizer \<times> marian_tokenizer"

datatype call =
    GroqClient string
  | RequestsGet string
  | ModelFromPretrained string
  | TokenizerFromPretrained string
  | MarianGenerate marian_model marian_tokenizer string
  | ChatCompletionsCreate string string
  | AudioTranslationsCreate string
  | AudioTranscriptionsCreate string "string option"
  | Uuid4
  | NewObjectId
  | Ffmpeg ffmpeg_request
  | WriteSrt string "segment list"
  | OsRemove string
  | FindOneByPath string
  | FindOneById string
  | UpdateOne string "(string \<times> payload) list"

text \<open>
  \<open>local_video_id\<close> and \<open>local_audio_path\<close> are the local variables \<open>video_id\<close> and
  \<open>audio_path\<close> of \<open>process_video_stream\<close>, which its \<open>except\<close> and \<open>finally\<close> blocks read;
  \<open>yielded\<close> are the progress messages the generator has produced.
\<close>

record state =
  client :: "string option"
  translation_models :: "(string \<times> model_info) list"
  files :: "string list"
  calls :: "call list"
  yielded :: "progress_event list"
  local_video_id :: "string option"
  local_audio_path :: "string option"

record env =
  getenv_GROQ_API_KEY :: "string option"
  config_GROQ_API_KEY :: "string option"
  groq_Client :: "nat \<Rightarrow> string \<Rightarrow> error + unit"
  requests_get :: "nat \<Rightarrow> string \<Rightarrow> error + nat"
  MarianMTModel_from_pretrained :: "nat \<Rightarrow> string \<Rightarrow> error + marian_model"
  MarianTokenizer_from_pretrained :: "nat \<Rightarrow> string \<Rightarrow> error + marian_tokenizer"
  marian_generate :: "nat \<Rightarrow> marian_model \<Rightarrow> marian_tokenizer \<Rightarrow> string \<Rightarrow> error + string"
  chat_completions_create :: "nat \<Rightarrow> string \<Rightarrow> string \<Rightarrow> error + string option list"
  audio_translations_create :: "nat \<Rightarrow> string \<Rightarrow> error + whisper_response"
  audio_transcriptions_create :: "nat \<Rightarrow> string \<Rightarrow> string option \<Rightarrow> error + whisper_response"
  output_folder :: string
  fonts_dir :: string
  uuid4 :: "nat \<Rightarrow> string"
  new_ObjectId :: "nat \<Rightarrow> object_id"
  ffmpeg_run :: "nat \<Rightarrow> ffmpeg_request \<Rightarrow> error + bool"
  ffmpeg_probe :: "nat \<Rightarrow> string \<Rightarrow> error + int \<times> int"
  write_srt :: "nat \<Rightarrow> string \<Rightarrow> error + unit"
  os_remove :: "nat \<Rightarrow> string \<Rightarrow> error + unit"
  find_one_by_path :: "nat \<Rightarrow> string \<Rightarrow> error + video_doc option"
  find_one_by_id :: "nat \<Rightarrow> string \<Rightarrow> error + video_doc option"
  update_one :: "nat \<Rightarrow> string \<Rightarrow> (string \<times> payload) list \<Rightarrow> error + unit"

text \<open>
  An action is a function from the state to a result, raised or returned, and the new
  state. \<open>bind\<close> is sequencing, \<open>try_except\<close> is \<open>try: m except Exception as e: h e\<close>, and
  \<open>external c r\<close> logs the call \<open>c\<close> and yields what the oracle \<open>r\<close> answers now.
\<close>

type_synonym 'a action = "state \<Rightarrow> (error + 'a) \<times> state"

definition ret :: "'a \<Rightarrow> 'a action" where
  "ret x = (\<lambda>st. (Inr x, st))"

definition raise :: "error \<Rightarrow> 'a action" where
  "raise e = (\<lambda>st. (Inl e, st))"

definition bind :: "'a action \<Rightarrow> ('a \<Rightarrow> 'b action) \<Rightarrow> 'b action" where
  "bind m f = (\<lambda>st. case m st of (Inl e, st') \<Rightarrow> (Inl e, st') | (Inr x, st') \<Rightarrow> f x st')"

definition try_except :: "'a action \<Rightarrow> (error \<Rightarrow> 'a action) \<Rightarrow> 'a action" where
  "try_except m h = (\<lambda>st. case m st of (Inl e, st') \<Rightarrow> h e st' | (Inr x, st') \<Rightarrow> (Inr x, st'))"

definition external :: "call \<Rightarrow> (nat \<Rightarrow> error + 'a) \<Rightarrow> 'a action" where
  "external c r = (\<lambda>st. (r (length (calls st)), st\<lparr>calls := calls st @ [c]\<rparr>))"


text \<open>A call through \<open>self.client\<close>, which is \<open>None\<close> before \<open>ensure_initialized\<close>.\<close>

definition client_call :: "call \<Rightarrow> (nat \<Rightarrow> error + 'a) \<Rightarrow> 'a action" where
  "client_call c r = (\<lambda>st. if client st = None then raise AttributeError st else external c r st)"


section \<open>The Groq client (\<open>VideoService.ensure_initialized\<close>)\<close>

text \<open>
  \<open>os.getenv('GROQ_API_KEY') or current_app.config.get('GROQ_API_KEY')\<close> is the first
  value when it is truthy and the second otherwise. A missing key raises \<open>ValueError\<close>;
  an error of the client's constructor is raised again.
\<close>

definition ensure_initialized :: "env \<Rightarrow> unit action" where
  "ensure_initialized env =
     (\<lambda>st.
        if client st = None then
          (let api_key = (if truthy_str (getenv_GROQ_API_KEY env)
                          then getenv_GROQ_API_KEY env else config_GROQ_API_KEY env)
           in if \<not> truthy_str api_key then raise (ValueError ''GROQ_API_KEY not found'') st
              else
                try_except
                  (bind (external (GroqClient (the api_key))
                           (\<lambda>t. groq_Client env t (the api_key)))
                     (\<lambda>_ st'. (Inr (), st'\<lparr>client := api_key\<rparr>)))
                  (\<lambda>e. raise e) st)
        else ret () st)"


section \<open>Resolving a translation model\<close>

text \<open>\<open>_model_exists_on_hf\<close>: a timeout or any other error of the request is "not found".\<close>

definition model_exists_on_hf :: "env \<Rightarrow> string \<Rightarrow> bool action" where
  "model_exists_on_hf env model_name =
     try_except
       (let api_url = ''https://huggingface.co/api/models/'' @ model_name in
        bind (external (RequestsGet api_url) (\<lambda>t. requests_get env t api_url))
          (\<lambda>status_code. ret (status_code = 200)))
       (\<lambda>e. ret False)"

text \<open>The first candidate name with an entry in the cache (lines 150 to 153).\<close>

fun cached_model :: "(string \<times> model_info) list \<Rightarrow> string list \<Rightarrow> model_info option" where
  "cached_model models [] = None"
| "cached_model models (model_name # rest) =
     (case map_of models model_name of
        Some info \<Rightarrow> Some info
      | None \<Rightarrow> cached_model models rest)"

text \<open>
  The body of the \<open>try\<close> of the direct loop (lines 159 to 165): \<open>Some\<close> is the
  \<open>return\<close>, \<open>None\<close> falls through to the next candidate.
\<close>

definition load_direct_model :: "env \<Rightarrow> string \<Rightarrow> model_info option action" where
  "load_direct_model env model_name =
     bind (model_exists_on_hf env model_name)
       (\<lambda>found.
          if found then
            bind (external (ModelFromPretrained model_name)
                    (\<lambda>t. MarianMTModel_from_pretrained env t model_name))
              (\<lambda>model.
                 bind (external (TokenizerFromPretrained model_name)
                         (\<lambda>t. MarianTokenizer_from_pretrained env t model_name))
                   (\<lambda>tokenizer st.
                      (Inr (Some (Direct model tokenizer)),
                       st\<lparr>translation_models :=
                            AList.update model_name (Direct model tokenizer)
                              (translation_models st)\<rparr>)))
          else ret None)"

text \<open>The loop over the candidates: an error of one candidate moves on to the next.\<close>

fun load_direct_models :: "env \<Rightarrow> string list \<Rightarrow> model_info option action" where
  "load_direct_models env [] = ret None"
| "load_direct_models env (model_name # rest) =
     bind (try_except (load_direct_model env model_name) (\<lambda>e. ret None))
       (\<lambda>r. case r of
               Some info \<Rightarrow> ret (Some info)
             | None \<Rightarrow> load_direct_models env rest)"

text \<open>The body of the \<open>try\<close> of the pivot branch (lines 173 to 195); it always returns
  or raises.\<close>

definition load_pivot_models :: "env \<Rightarrow> string \<Rightarrow> string \<Rightarrow> model_info option action" where
  "load_pivot_models env source_lang target_lang =
     (let source_to_en = ''Helsinki-NLP/opus-mt-'' @ source_lang @ ''-en'';
          en_to_target = ''Helsinki-NLP/opus-mt-en-'' @ target_lang
      in
      bind (model_exists_on_hf env source_to_en)
        (\<lambda>found1.
           if \<not> found1 then ret None
           else
             bind (model_exists_on_hf env en_to_target)
               (\<lambda>found2.
                  if \<not> found2 then ret None
                  else
                    bind (external (ModelFromPretrained source_to_en)
                            (\<lambda>t. MarianMTModel_from_pretrained env t source_to_en))
                      (\<lambda>model1.
                    bind (external (ModelFromPretrained en_to_target)
                            (\<lambda>t. MarianMTModel_from_pretrained env t en_to_target))
                      (\<lambda>model2.
                    bind (external (TokenizerFromPretrained source_to_en)
                            (\<lambda>t. MarianTokenizer_from_pretrained env t source_to_en))
                      (\<lambda>tokenizer1.
                    bind (external (TokenizerFromPretrained en_to_target)
                            (\<lambda>t. MarianTokenizer_from_pretrained env t en_to_target))
                      (\<lambda>tokenizer2 st.
                         (Inr (Some (Pivot (model1, model2) (tokenizer1, tokenizer2))),
                          st\<lparr>translation_models :=
                               AList.update (source_lang @ ''-'' @ target_lang @ ''_pivot'')
                                 (Pivot (model1, model2) (tokenizer1, tokenizer2))
                                 (translation_models st)\<rparr>))))))))"

definition model_variants :: "string \<Rightarrow> string \<Rightarrow> string list" where
  "model_variants source_lang target_lang =
     [''Helsinki-NLP/opus-mt-'' @ source_lang @ ''-'' @ target_lang,
      ''Helsinki-NLP/opus-mt-tc-big-'' @ source_lang @ ''-'' @ target_lang,
      ''Helsinki-NLP/opus-mt-'' @ source_lang @ ''-'' @ target_lang @ ''-big'']"

text \<open>
  \<open>get_translation_model\<close>. \<open>None\<close> is the source's \<open>None\<close>, which the caller takes as
  "use the Groq fallback".
\<close>

definition get_translation_model :: "env \<Rightarrow> string \<Rightarrow> string \<Rightarrow> model_info option action" where
  "get_translation_model env source_lang0 target_lang0 =
     (let source_lang = normalize_lang_code source_lang0;
          target_lang = normalize_lang_code target_lang0
      in
      if source_lang = ''ar'' \<and> target_lang = ''en'' then ret None
      else
        (\<lambda>st.
           case cached_model (translation_models st) (model_variants source_lang target_lang) of
             Some info \<Rightarrow> ret (Some info) st
           | None \<Rightarrow>
               bind (load_direct_models env (model_variants source_lang target_lang))
                 (\<lambda>r. case r of
                         Some info \<Rightarrow> ret (Some info)
                       | None \<Rightarrow>
                           if source_lang \<noteq> ''en''
                           then try_except (load_pivot_models env source_lang target_lang)
                                  (\<lambda>e. ret None)
                           else ret None) st))"


text \<open>What \<open>get_translation_model\<close> does when the cache has no candidate (lines 155 to 200).\<close>

definition resolve_uncached :: "env \<Rightarrow> string \<Rightarrow> string \<Rightarrow> model_info option action" where
  "resolve_uncached env s t =
     bind (load_direct_models env (model_variants s t))
       (\<lambda>r. case r of
               Some info \<Rightarrow> ret (Some info)
             | None \<Rightarrow>
                 if s \<noteq> ''en''
                 then try_except (load_pivot_models env s t) (\<lambda>e. ret None)
                 else ret None)"


section \<open>Translating a text\<close>

definition arabic_system_prompt :: string where
  "arabic_system_prompt =
     ''You are an expert Arabic translator. Translate the following text to English, '' @
     ''maintaining proper context and nuance. Preserve any technical terms, names, '' @
     ''and numbers exactly as they appear. Provide a natural, fluent translation '' @
     ''that captures the original meaning accurately.''"

definition system_prompt :: "string \<Rightarrow> string \<Rightarrow> string" where
  "system_prompt source_lang target_lang =
     (if source_lang = ''ar'' then arabic_system_prompt
      else ''Translate the following text from '' @ source_lang @ '' to '' @ target_lang @
           ''. '' @ ''Maintain exact meaning, preserve numbers and proper nouns.'')"

text \<open>
  \<open>response.choices[0].message.content.strip()\<close>: the response is the list of the
  contents of its choices; no choice raises \<open>IndexError\<close>, a content of \<open>None\<close> raises
  \<open>AttributeError\<close>.
\<close>

fun first_choice_content :: "string option list \<Rightarrow> string action" where
  "first_choice_content [] = raise IndexError"
| "first_choice_content (None # _) = raise AttributeError"
| "first_choice_content (Some content # _) = ret (strip content)"

text \<open>
  What the remote service gives for a text when asked in the state \<open>st\<close>: the trimmed
  content of its first choice, and the text itself when the call raises or the answer
  has no first choice or no content.
\<close>

definition remote_answer :: "env \<Rightarrow> string \<Rightarrow> string \<Rightarrow> string \<Rightarrow> state \<Rightarrow> string" where
  "remote_answer env text source_lang target_lang st =
     (case chat_completions_create env (length (calls st))
             (system_prompt source_lang target_lang) text of
        Inr (Some content # rest) \<Rightarrow> strip content
      | _ \<Rightarrow> text)"

text \<open>\<open>_translate_with_groq_fallback\<close>: \<open>ensure_initialized\<close> is called before the \<open>try\<close>.\<close>

definition translate_with_groq_fallback ::
    "env \<Rightarrow> string \<Rightarrow> string \<Rightarrow> string \<Rightarrow> string action" where
  "translate_with_groq_fallback env text source_lang target_lang =
     bind (ensure_initialized env)
       (\<lambda>_. try_except
               (bind (external
                        (ChatCompletionsCreate (system_prompt source_lang target_lang) text)
                        (\<lambda>t. chat_completions_create env t
                                (system_prompt source_lang target_lang) text))
                  first_choice_content)
               (\<lambda>e. ret text))"

text \<open>
  Line 272 reads \<open>model_info['tokenizer'].name_or_path\<close> for its log message; for a pivot
  entry the tokenizer is a list, which has no such attribute.
\<close>

fun tokenizer_name_or_path :: "model_info \<Rightarrow> string action" where
  "tokenizer_name_or_path (Direct model (MarianTokenizer name)) = ret name"
| "tokenizer_name_or_path (Pivot models tokenizers) = raise AttributeError"

text \<open>Tokenize, generate, decode with one model.\<close>

definition run_model :: "env \<Rightarrow> marian_model \<Rightarrow> marian_tokenizer \<Rightarrow> string \<Rightarrow> string action" where
  "run_model env model tokenizer text =
     external (MarianGenerate model tokenizer text)
       (\<lambda>t. marian_generate env t model tokenizer text)"

text \<open>The body of the \<open>try\<close> of \<open>translate_text\<close> (lines 272 to 304).\<close>

definition translate_with_model :: "env \<Rightarrow> model_info \<Rightarrow> string \<Rightarrow> string action" where
  "translate_with_model env info text =
     bind (tokenizer_name_or_path info)
       (\<lambda>_. case info of
               Pivot (model1, model2) (tokenizer1, tokenizer2) \<Rightarrow>
                 bind (run_model env model1 tokenizer1 text)
                   (\<lambda>pivot_text. run_model env model2 tokenizer2 pivot_text)
             | Direct model tokenizer \<Rightarrow> run_model env model tokenizer text)"

definition translate_text :: "env \<Rightarrow> string \<Rightarrow> string \<Rightarrow> string \<Rightarrow> string action" where
  "translate_text env text source_lang0 target_lang0 =
     (let source_lang = normalize_lang_code source_lang0;
          target_lang = normalize_lang_code target_lang0
      in
      if source_lang = target_lang then ret text
      else if source_lang = ''ar'' \<and> target_lang = ''en''
      then translate_with_groq_fallback env text source_lang target_lang
      else
        bind (get_translation_model env source_lang target_lang)
          (\<lambda>model_info.
             case model_info of
               None \<Rightarrow> translate_with_groq_fallback env text source_lang target_lang
             | Some info \<Rightarrow>
                 try_except (translate_with_model env info text)
                   (\<lambda>e. translate_with_groq_fallback env text source_lang target_lang)))"


text \<open>
  The resolver of the specification, as a value: the choice that \<open>translate_text\<close> makes
  (lines 251 to 269), with \<open>get_translation_model\<close> for the pairs it hands on. \<open>NoOp\<close> is
  the return of the text as it came, \<open>RemoteFallback\<close> the call of the Groq fallback.
\<close>

datatype strategy = NoOp | UseModel model_info | RemoteFallback

definition resolve :: "env \<Rightarrow> string \<Rightarrow> string \<Rightarrow> strategy action" where
  "resolve env source_lang0 target_lang0 =
     (let source_lang = normalize_lang_code source_lang0;
          target_lang = normalize_lang_code target_lang0
      in
      if source_lang = target_lang then ret NoOp
      else if source_lang = ''ar'' \<and> target_lang = ''en'' then ret RemoteFallback
      else
        bind (get_translation_model env source_lang target_lang)
          (\<lambda>model_info.
             case model_info of
               None \<Rightarrow> ret RemoteFallback
             | Some info \<Rightarrow> ret (UseModel info)))"

text \<open>What \<open>translate_text\<close> does with the strategy (lines 259 to 308).\<close>

definition apply_strategy ::
    "env \<Rightarrow> string \<Rightarrow> string \<Rightarrow> string \<Rightarrow> strategy \<Rightarrow> string action" where
  "apply_strategy env text source_lang target_lang strategy =
     (case strategy of
        NoOp \<Rightarrow> ret text
      | RemoteFallback \<Rightarrow> translate_with_groq_fallback env text source_lang target_lang
      | UseModel info \<Rightarrow>
          try_except (translate_with_model env info text)
            (\<lambda>e. translate_with_groq_fallback env text source_lang target_lang))"


section \<open>Translating the segments (\<open>VideoService._process_subtitles\<close>)\<close>

text \<open>One round of the loop: the \<open>try\<close> appends the translated segment, the \<open>except\<close>
  appends the segment as it came.\<close>

definition process_subtitle ::
    "env \<Rightarrow> string \<Rightarrow> string \<Rightarrow> segment \<Rightarrow> segment list \<Rightarrow> segment list action" where
  "process_subtitle env source_lang target_lang sub processed =
     try_except
       (bind (translate_text env (seg_text sub) source_lang target_lang)
          (\<lambda>translated_text.
             ret (processed @
                  [\<lparr> seg_start = seg_start sub, seg_end = seg_end sub,
                     seg_text = translated_text \<rparr>])))
       (\<lambda>e. ret (processed @ [sub]))"

fun process_subtitles_from ::
    "env \<Rightarrow> string \<Rightarrow> string \<Rightarrow> segment list \<Rightarrow> segment list \<Rightarrow> segment list action" where
  "process_subtitles_from env source_lang target_lang [] processed = ret processed"
| "process_subtitles_from env source_lang target_lang (sub # subtitles) processed =
     bind (process_subtitle env source_lang target_lang sub processed)
       (process_subtitles_from env source_lang target_lang subtitles)"

definition process_subtitles ::
    "env \<Rightarrow> segment list \<Rightarrow> string \<Rightarrow> string \<Rightarrow> segment list action" where
  "process_subtitles env subtitles source_lang target_lang =
     process_subtitles_from env source_lang target_lang subtitles []"


text \<open>What one round appends when \<open>translate_text\<close> is called in the state \<open>st\<close>.\<close>

definition translated_segment :: "env \<Rightarrow> string \<Rightarrow> string \<Rightarrow> segment \<Rightarrow> state \<Rightarrow> segment" where
  "translated_segment env source_lang target_lang sub st =
     (case fst (translate_text env (seg_text sub) source_lang target_lang st) of
        Inl e \<Rightarrow> sub
      | Inr translated_text \<Rightarrow>
          \<lparr> seg_start = seg_start sub, seg_end = seg_end sub, seg_text = translated_text \<rparr>)"


section \<open>Transcription (\<open>detect_language\<close>, \<open>_transcribe_with_groq\<close>)\<close>

text \<open>\<open>open(audio_path, "rb")\<close> raises when the file does not exist.\<close>

definition open_rb :: "string \<Rightarrow> unit action" where
  "open_rb path =
     (\<lambda>st. if path \<in> set (files st) then ret () st
           else raise (FileNotFoundError path) st)"


record transcription =
  t_segments :: "segment list"
  detected_language :: string
  sample_text :: string

text \<open>The calls to the speech service (lines 340 to 364).\<close>

definition speech_call :: "env \<Rightarrow> string \<Rightarrow> string \<Rightarrow> string \<Rightarrow> whisper_response action" where
  "speech_call env audio_path source_lang target_lang =
     (if target_lang = ''en'' \<and> source_lang \<noteq> ''en'' then
        try_except
          (client_call (AudioTranslationsCreate audio_path)
             (\<lambda>t. audio_translations_create env t audio_path))
          (\<lambda>e. client_call (AudioTranscriptionsCreate audio_path (Some source_lang))
                  (\<lambda>t. audio_transcriptions_create env t audio_path (Some source_lang)))
      else
        client_call (AudioTranscriptionsCreate audio_path (Some source_lang))
          (\<lambda>t. audio_transcriptions_create env t audio_path (Some source_lang)))"

text \<open>One round of the loop over the raw segments (lines 386 to 400).\<close>

definition process_raw_segment :: "raw_segment \<Rightarrow> segment list \<Rightarrow> segment list" where
  "process_raw_segment seg processed_segments =
     (case (raw_start seg, raw_end seg, raw_text seg) of
        (Some s, Some e, Some t) \<Rightarrow>
          if e > s \<and> strip t \<noteq> []
          then processed_segments @ [\<lparr> seg_start = s, seg_end = e, seg_text = strip t \<rparr>]
          else processed_segments
      | _ \<Rightarrow> processed_segments)"

fun process_raw_segments :: "raw_segment list \<Rightarrow> segment list \<Rightarrow> segment list" where
  "process_raw_segments [] processed_segments = processed_segments"
| "process_raw_segments (seg # rest) processed_segments =
     process_raw_segments rest (process_raw_segment seg processed_segments)"

text \<open>The body of the \<open>try\<close> of \<open>_transcribe_with_groq\<close>.\<close>

definition transcribe_with_groq_body ::
    "env \<Rightarrow> string \<Rightarrow> string \<Rightarrow> string \<Rightarrow> transcription action" where
  "transcribe_with_groq_body env audio_path source_lang target_lang =
     bind (open_rb audio_path)
       (\<lambda>_. bind (speech_call env audio_path source_lang target_lang)
          (\<lambda>response.
             let detected = (case language response of
                               Some l \<Rightarrow> l | None \<Rightarrow> source_lang);
                 normalized_detected = normalize_lang_code detected;
                 segs = (case segments response of Some xs \<Rightarrow> xs | None \<Rightarrow> []);
                 sample = (case segs of
                             [] \<Rightarrow> []
                           | first # _ \<Rightarrow> (case raw_text first of
                                            Some t \<Rightarrow> t | None \<Rightarrow> []))
             in ret \<lparr> t_segments = process_raw_segments segs [],
                      detected_language = normalized_detected,
                      sample_text = sample \<rparr>))"

definition transcribe_with_groq ::
    "env \<Rightarrow> string \<Rightarrow> string \<Rightarrow> string \<Rightarrow> transcription action" where
  "transcribe_with_groq env audio_path source_lang target_lang =
     try_except (transcribe_with_groq_body env audio_path source_lang target_lang)
       (\<lambda>e. ret \<lparr> t_segments = [], detected_language = source_lang, sample_text = [] \<rparr>)"

text \<open>
  The rule of the specification for a raw segment: it has all of start, end and text,
  its end is after its start, and its trimmed text is not empty. A kept segment carries
  the trimmed text.
\<close>

definition segment_is_valid :: "raw_segment \<Rightarrow> bool" where
  "segment_is_valid seg =
     (raw_start seg \<noteq> None \<and> raw_end seg \<noteq> None \<and> raw_text seg \<noteq> None \<and>
      the (raw_end seg) > the (raw_start seg) \<and> strip (the (raw_text seg)) \<noteq> [])"

definition cleaned :: "raw_segment \<Rightarrow> segment" where
  "cleaned seg =
     \<lparr> seg_start = the (raw_start seg), seg_end = the (raw_end seg),
       seg_text = strip (the (raw_text seg)) \<rparr>"


text \<open>The result of the \<open>except\<close> block of \<open>_transcribe_with_groq\<close>.\<close>

definition empty_transcription :: "string \<Rightarrow> transcription" where
  "empty_transcription source_lang =
     \<lparr> t_segments = [], detected_language = source_lang, sample_text = [] \<rparr>"


section \<open>The record store (\<open>app/models/video.py\<close>)\<close>





section \<open>Files and paths\<close>












section \<open>The stages around the media tool\<close>







section \<open>The pipeline (\<open>VideoService.process_video_stream\<close>)\<close>
















section \<open>The failure of a run without segments\<close>




section \<open>Example worlds\<close>

text \<open>A fresh service, and a world in which nothing outside answers and no API key is set.\<close>

definition initial_state :: state where
  "initial_state =
     \<lparr> client = None, translation_models = [], files = [], calls = [], yielded = [],
       local_video_id = None, local_audio_path = None \<rparr>"

definition offline_env :: env where
  "offline_env =
     \<lparr> getenv_GROQ_API_KEY = None,
       config_GROQ_API_KEY = None,
       groq_Client = (\<lambda>t key. Inl (ExternalError ''offline'')),
       requests_get = (\<lambda>t url. Inl (ExternalError ''timeout'')),
       MarianMTModel_from_pretrained = (\<lambda>t name. Inl (ExternalError ''offline'')),
       MarianTokenizer_from_pretrained = (\<lambda>t name. Inl (ExternalError ''offline'')),
       marian_generate = (\<lambda>t model tokenizer text. Inl (ExternalError ''offline'')),
       chat_completions_create = (\<lambda>t prompt text. Inl (ExternalError ''offline'')),
       audio_translations_create = (\<lambda>t path. Inl (ExternalError ''offline'')),
       audio_transcriptions_create = (\<lambda>t path lang. Inl (ExternalError ''offline'')),
       output_folder = ''out'',
       fonts_dir = ''fonts'',
       uuid4 = (\<lambda>t. ''u''),
       new_ObjectId = (\<lambda>t. Abs_object_id ''0123456789abcdef01234567''),
       ffmpeg_run = (\<lambda>t request. Inl (FfmpegError None)),
       ffmpeg_probe = (\<lambda>t path. Inl (FfmpegError None)),
       write_srt = (\<lambda>t path. Inl (ExternalError ''read-only'')),
       os_remove = (\<lambda>t path. Inl (ExternalError ''read-only'')),
       find_one_by_path = (\<lambda>t path. Inl (ExternalError ''offline'')),
       find_one_by_id = (\<lambda>t oid. Inl (ExternalError ''offline'')),
       update_one = (\<lambda>t oid data. Inl (ExternalError ''offline'')) \<rparr>"

text \<open>
  A world with an API key, in which the model repository has the two models of the
  pivot from French to German and no direct one, every model loads, a model returns
  its input, and the remote service answers with the text between two blanks.
\<close>

definition pivot_env :: env where
  "pivot_env =
     offline_env
       \<lparr> getenv_GROQ_API_KEY := Some ''key'',
         groq_Client := (\<lambda>t key. Inr ()),
         requests_get :=
           (\<lambda>t url.
              if url = ''https://huggingface.co/api/models/Helsinki-NLP/opus-mt-fr-en''
                 \<or> url = ''https://huggingface.co/api/models/Helsinki-NLP/opus-mt-en-de''
              then Inr 200 else Inr 404),
         MarianMTModel_from_pretrained := (\<lambda>t name. Inr (MarianMTModel name)),
         MarianTokenizer_from_pretrained := (\<lambda>t name. Inr (MarianTokenizer name)),
         marian_generate := (\<lambda>t model tokenizer text. Inr text),
         chat_completions_create := (\<lambda>t prompt text. Inr [Some ('' '' @ text @ '' '')]) \<rparr>"

definition fr_de_pivot :: model_info where
  "fr_de_pivot =
     Pivot (MarianMTModel ''Helsinki-NLP/opus-mt-fr-en'',
            MarianMTModel ''Helsinki-NLP/opus-mt-en-de'')
           (MarianTokenizer ''Helsinki-NLP/opus-mt-fr-en'',
            MarianTokenizer ''Helsinki-NLP/opus-mt-en-de'')"

definition after_first_call :: state where
  "after_first_call = snd (get_translation_model pivot_env ''fr'' ''de'' initial_state)"


text \<open>A service with a client and an extracted audio file, and a speech service that
  answers with one well-formed segment and three malformed ones.\<close>

definition ready_state :: state where
  "ready_state = initial_state\<lparr>client := Some ''key'', files := [''out/u.wav'']\<rparr>"

definition whisper_segments :: "raw_segment list" where
  "whisper_segments =
     [\<lparr> raw_start = Some 0, raw_end = Some 2, raw_text = Some '' Hola '' \<rparr>,
      \<lparr> raw_start = Some 5, raw_end = Some 4, raw_text = Some ''Mundo'' \<rparr>,
      \<lparr> raw_start = Some 6, raw_end = Some 7, raw_text = Some ''  '' \<rparr>,
      \<lparr> raw_start = Some 8, raw_end = Some 9, raw_text = None \<rparr>]"

definition whisper_env :: env where
  "whisper_env =
     offline_env
       \<lparr> audio_transcriptions_create :=
           (\<lambda>t path lang.
              Inr \<lparr> language = Some ''Spanish'', segments = Some whisper_segments \<rparr>) \<rparr>"

definition marhaban :: segment where
  "marhaban = \<lparr> seg_start = 0, seg_end = 2, seg_text = ''marhaban'' \<rparr>"

definition hola_mundo :: "segment list" where
  "hola_mundo =
     [\<lparr> seg_start = 0, seg_end = 2, seg_text = ''Hola'' \<rparr>,
      \<lparr> seg_start = 2, seg_end = 4, seg_text = ''Mundo'' \<rparr>]"






definition started_state :: state where
  "started_state = initial_state\<lparr>client := Some ''key''\<rparr>"






section \<open>Properties of the language codes\<close>

lemma lower_char_idem: "lower_char (lower_char c) = lower_char c"
  by (auto simp: lower_char_def)

lemma lower_fixed: "\<forall>c \<in> set ys. lower_char c = c \<Longrightarrow> lower ys = ys"
  by (simp add: lower_def map_idI)

lemma lower_chars: "c \<in> set (lower s) \<Longrightarrow> lower_char c = c"
  by (auto simp: lower_def lower_char_idem)

lemma known_code_normal:
  "code \<in> set (map snd LANGUAGE_NAME_MAP) \<Longrightarrow> normalize_lang_code code = code"
  by (auto simp: lang_defs)

lemma map_of_codes:
  "map_of LANGUAGE_NAME_MAP name = Some code \<Longrightarrow> code \<in> set (map snd LANGUAGE_NAME_MAP)"
  by (auto simp: LANGUAGE_NAME_MAP_def split: if_splits)

text \<open>
  Normalisation is idempotent on every input whose normal form has no blank at either
  end.
\<close>

lemma normalize_idempotent_when_stripped:
  assumes "strip (normalize_lang_code x) = normalize_lang_code x"
  shows "normalize_lang_code (normalize_lang_code x) = normalize_lang_code x"
proof -
  define l where "l = lower (strip x)"
  show ?thesis
  proof (cases "length l = 2 \<and> l \<in> set (map snd LANGUAGE_NAME_MAP)")
    case True
    then have "normalize_lang_code x = l"
      by (simp add: normalize_lang_code_def l_def)
    with True show ?thesis by (simp add: known_code_normal)
  next
    case False
    define l' where "l' = (if CHR ''-'' \<in> set l then takeWhile (\<lambda>c. c \<noteq> CHR ''-'') l else l)"
    have r: "normalize_lang_code x =
               (case map_of LANGUAGE_NAME_MAP l' of Some code \<Rightarrow> code | None \<Rightarrow> l')"
      using False unfolding l_def l'_def normalize_lang_code_def Let_def
      by (auto split: option.splits)
    show ?thesis
    proof (cases "map_of LANGUAGE_NAME_MAP l'")
      case (Some code)
      with r map_of_codes show ?thesis by (simp add: known_code_normal)
    next
      case None
      with r have res: "normalize_lang_code x = l'" by simp
      have sub: "set l' \<subseteq> set l"
        by (auto simp: l'_def dest: set_takeWhileD)
      have low: "lower l' = l'"
        using sub by (intro lower_fixed) (auto simp: l_def dest: lower_chars)
      have nohyp: "CHR ''-'' \<notin> set l'"
        by (auto simp: l'_def dest: set_takeWhileD)
      have l2: "lower (strip l') = l'"
        using assms res low by simp
      show ?thesis
      proof (cases "length l' = 2 \<and> l' \<in> set (map snd LANGUAGE_NAME_MAP)")
        case True
        with res show ?thesis by (simp add: known_code_normal)
      next
        case False
        with l2 nohyp None have "normalize_lang_code l' = l'"
          by (simp add: normalize_lang_code_def Let_def)
        with res show ?thesis by simp
      qed
    qed
  qed
qed

text \<open>
  C7. Normalisation is not idempotent on the code: the prefix taken before the hyphen is
  not stripped again, so \<open>"en -US"\<close> is normalised to \<open>"en "\<close> (with the blank), whose
  normal form is \<open>"en"\<close>. The two values named by the claim are as it says.
\<close>

theorem normalize_lang_code_not_idempotent:
  "normalize_lang_code ''en -US'' = ''en '' \<and>
   normalize_lang_code (normalize_lang_code ''en -US'') = ''en'' \<and>
   normalize_lang_code (normalize_lang_code ''en -US'') \<noteq> normalize_lang_code ''en -US'' \<and>
   normalize_lang_code ''en-US'' = ''en'' \<and> normalize_lang_code ''EN'' = ''en''"
  by (simp add: lang_defs)


section \<open>Properties of the layout\<close>

lemma body_max_lines:
  assumes "calculate_subtitle_properties_body width height u = Inr d"
  shows "max_lines d = (if is_vertical width height then 1 else 2)"
  using assms
  by (auto simp: calculate_subtitle_properties_body_def Let_def split: if_splits)

lemma body_error_iff:
  "(\<exists>e. calculate_subtitle_properties_body width height u = Inl e) \<longleftrightarrow> height = 0"
  by (auto simp: calculate_subtitle_properties_body_def Let_def)

text \<open>
  C8. A video is vertical exactly when \<open>width / height < 0.6\<close>; a vertical video gets one
  line and any other two (1080 x 1920 gives 1, 1920 x 1080 gives 2). Whenever the
  computation raises, as it does for \<open>height = 0\<close>, the result is the default
  \<open>(24, 2, 20, 28, 50, 40)\<close>.
\<close>

theorem calculate_subtitle_properties_max_lines:
  "(height \<noteq> 0 \<longrightarrow>
      max_lines (calculate_subtitle_properties width height u) =
        (if real_of_int width / real_of_int height < 0.6 then 1 else 2)) \<and>
   max_lines (calculate_subtitle_properties 1080 1920 u) = 1 \<and>
   max_lines (calculate_subtitle_properties 1920 1080 u) = 2 \<and>
   (\<forall>e. calculate_subtitle_properties_body width height u = Inl e \<longrightarrow>
      calculate_subtitle_properties width height u =
        \<lparr> font_size = 24, max_lines = 2, margin_v = 20, line_height = 28,
          h_margin = 50, max_chars = 40 \<rparr>) \<and>
   calculate_subtitle_properties_body width 0 u = Inl ZeroDivisionError \<and>
   calculate_subtitle_properties width 0 u =
     \<lparr> font_size = 24, max_lines = 2, margin_v = 20, line_height = 28,
       h_margin = 50, max_chars = 40 \<rparr>"
proof -
  have general: "max_lines (calculate_subtitle_properties w h u) =
      (if real_of_int w / real_of_int h < 0.6 then 1 else 2)" if "h \<noteq> 0" for w h
  proof -
    from that obtain d where d: "calculate_subtitle_properties_body w h u = Inr d"
      using body_error_iff [of w h u] by (cases "calculate_subtitle_properties_body w h u") auto
    then show ?thesis
      using body_max_lines [OF d]
      by (simp add: calculate_subtitle_properties_def is_vertical_def)
  qed
  have "max_lines (calculate_subtitle_properties 1080 1920 u) = 1"
    using general [of 1920 1080] by simp
  moreover have "max_lines (calculate_subtitle_properties 1920 1080 u) = 2"
    using general [of 1080 1920] by simp
  moreover have "calculate_subtitle_properties_body width 0 u = Inl ZeroDivisionError"
    by (simp add: calculate_subtitle_properties_body_def)
  moreover have "calculate_subtitle_properties w h u = default_layout"
    if "calculate_subtitle_properties_body w h u = Inl e" for w h e
    using that by (simp add: calculate_subtitle_properties_def)
  ultimately show ?thesis
    using general [of height width]
    by (auto simp: default_layout_def calculate_subtitle_properties_def)
qed

theorem calculate_subtitle_properties_max_lines_witness:
  "(1920::int) \<noteq> 0 \<and>
   max_lines (calculate_subtitle_properties 1080 1920 None) = 1 \<and>
   calculate_subtitle_properties_body 1920 0 None = Inl ZeroDivisionError \<and>
   calculate_subtitle_properties 1920 0 None =
     \<lparr> font_size = 24, max_lines = 2, margin_v = 20, line_height = 28,
       h_margin = 50, max_chars = 40 \<rparr>"
  using calculate_subtitle_properties_max_lines [of 1920 1080 None]
    calculate_subtitle_properties_max_lines [of 0 1920 None]
  by simp


section \<open>Properties of the resolver\<close>

lemmas action_defs = ret_def raise_def bind_def try_except_def external_def

lemmas resolver_defs =
  get_translation_model_def model_variants_def load_pivot_models_def load_direct_model_def
  model_exists_on_hf_def

text \<open>\<open>translate_text\<close> is the choice of the strategy followed by its application.\<close>

lemma translate_text_resolve:
  "translate_text env text source_lang target_lang =
     bind (resolve env source_lang target_lang)
       (apply_strategy env text (normalize_lang_code source_lang)
          (normalize_lang_code target_lang))"
proof
  fix st
  show "translate_text env text source_lang target_lang st =
     bind (resolve env source_lang target_lang)
       (apply_strategy env text (normalize_lang_code source_lang)
          (normalize_lang_code target_lang)) st"
  proof (cases "get_translation_model env (normalize_lang_code source_lang)
                  (normalize_lang_code target_lang) st")
    case (Pair r st')
    then show ?thesis
      by (cases r)
         (auto simp: translate_text_def resolve_def apply_strategy_def Let_def bind_def ret_def
            split: option.splits)
  qed
qed

text \<open>
  C1. With the same language on both sides the strategy is the no-op, and
  \<open>translate_text\<close> returns the text as it came, before \<open>get_translation_model\<close> is
  consulted: no model is looked up, probed, loaded or run, and no remote call is made
  (the state, with its log of calls, is the one it started from).
\<close>

theorem translate_text_same_language:
  "resolve env x x st = (Inr NoOp, st) \<and>
   translate_text env text x x st = (Inr text, st)"
  by (simp add: resolve_def translate_text_def ret_def)

lemma try_except_ret_returns:
  "\<exists>r st'. try_except m (\<lambda>e. ret d) st = (Inr r, st')"
proof (cases "m st")
  case (Pair a st')
  then show ?thesis by (cases a) (simp_all add: try_except_def ret_def)
qed

lemma load_direct_models_returns:
  "\<exists>r st'. load_direct_models env names st = (Inr r, st')"
proof (induction names arbitrary: st)
  case Nil
  then show ?case by (simp add: ret_def)
next
  case (Cons name names)
  obtain r st1 where 1:
    "try_except (load_direct_model env name) (\<lambda>e. ret None) st = (Inr r, st1)"
    using try_except_ret_returns [of "load_direct_model env name" None st] by blast
  show ?case
  proof (cases r)
    case None
    with 1 Cons.IH [of st1] show ?thesis by (simp add: bind_def)
  next
    case (Some info)
    with 1 show ?thesis by (simp add: bind_def ret_def)
  qed
qed

lemma get_translation_model_returns:
  "\<exists>r st'. get_translation_model env s t st = (Inr r, st')"
proof -
  define s' where "s' = normalize_lang_code s"
  define t' where "t' = normalize_lang_code t"
  obtain r1 st1 where 1: "load_direct_models env (model_variants s' t') st = (Inr r1, st1)"
    using load_direct_models_returns by blast
  obtain r2 st2 where 2:
    "try_except (load_pivot_models env s' t') (\<lambda>e. ret None) st1 = (Inr r2, st2)"
    using try_except_ret_returns [of "load_pivot_models env s' t'" None st1] by blast
  show ?thesis
    using 1 2
    by (auto simp: get_translation_model_def Let_def s'_def t'_def ret_def bind_def
        split: option.splits)
qed

lemma load_direct_model_not_found:
  assumes "requests_get env (length (calls st)) (''https://huggingface.co/api/models/'' @ name)
             \<noteq> Inr 200"
  shows "\<exists>st'. load_direct_model env name st = (Inr None, st') \<and>
               translation_models st' = translation_models st"
  using assms
  by (auto simp: load_direct_model_def model_exists_on_hf_def action_defs Let_def
      split: sum.splits)

lemma load_direct_models_not_found:
  assumes "\<forall>t url. requests_get env t url \<noteq> Inr 200"
  shows "\<exists>st'. load_direct_models env names st = (Inr None, st') \<and>
               translation_models st' = translation_models st"
proof (induction names arbitrary: st)
  case Nil
  then show ?case by (simp add: ret_def)
next
  case (Cons name names)
  obtain st1 where 1: "load_direct_model env name st = (Inr None, st1)"
      and 2: "translation_models st1 = translation_models st"
    using load_direct_model_not_found [of env st name] assms by blast
  from Cons.IH [of st1] 1 2 show ?case
    by (auto simp: bind_def try_except_def)
qed

lemma load_pivot_models_not_found:
  assumes "\<forall>t url. requests_get env t url \<noteq> Inr 200"
  shows "fst (load_pivot_models env s t st) = Inr None"
  using assms
  by (auto simp: load_pivot_models_def model_exists_on_hf_def action_defs Let_def
      split: sum.splits)

lemma resolve_returns: "\<exists>r st'. resolve env s t st = (Inr r, st')"
proof -
  obtain r st' where "get_translation_model env (normalize_lang_code s) (normalize_lang_code t) st
      = (Inr r, st')"
    using get_translation_model_returns by blast
  then show ?thesis
    by (cases r) (auto simp: resolve_def Let_def bind_def ret_def)
qed

lemma resolve_forms:
  "r = NoOp \<or> (\<exists>model tokenizer. r = UseModel (Direct model tokenizer)) \<or>
   (\<exists>models tokenizers. r = UseModel (Pivot models tokenizers)) \<or> r = RemoteFallback"
proof (cases r)
  case (UseModel info)
  then show ?thesis by (cases info) simp_all
qed simp_all

lemma resolve_ar_en: "resolve env ''ar'' ''en'' st = (Inr RemoteFallback, st)"
  by (simp add: resolve_def ret_def lang_defs)

text \<open>
  C2. \<open>get_translation_model\<close> returns for every pair and every answer of the outside
  world, and what it returns is \<open>None\<close> (use the remote fallback), a direct model or a
  pivot pair; so the strategy is always one of no-op, direct, pivot and remote fallback.
  For Arabic to English it is the remote fallback at once; and \<open>get_translation_model\<close>
  returns \<open>None\<close> when no candidate is cached and no probe of the repository finds a
  model (a probe that raises counts as not found).
\<close>

theorem get_translation_model_never_raises:
  "(\<exists>r st'. get_translation_model env source_lang target_lang st = (Inr r, st') \<and>
      (r = None \<or> (\<exists>model tokenizer. r = Some (Direct model tokenizer)) \<or>
       (\<exists>models tokenizers. r = Some (Pivot models tokenizers)))) \<and>
   (\<exists>r st'. resolve env source_lang target_lang st = (Inr r, st') \<and>
      (r = NoOp \<or> (\<exists>model tokenizer. r = UseModel (Direct model tokenizer)) \<or>
       (\<exists>models tokenizers. r = UseModel (Pivot models tokenizers)) \<or> r = RemoteFallback)) \<and>
   get_translation_model env ''ar'' ''en'' st = (Inr None, st) \<and>
   resolve env ''ar'' ''en'' st = (Inr RemoteFallback, st) \<and>
   ((\<forall>t url. requests_get env t url \<noteq> Inr 200) \<and>
    cached_model (translation_models st)
      (model_variants (normalize_lang_code source_lang) (normalize_lang_code target_lang)) = None
    \<longrightarrow> fst (get_translation_model env source_lang target_lang st) = Inr None)"
proof (intro conjI impI)
  obtain r st' where 1: "get_translation_model env source_lang target_lang st = (Inr r, st')"
    using get_translation_model_returns by blast
  have "r = None \<or> (\<exists>model tokenizer. r = Some (Direct model tokenizer)) \<or>
       (\<exists>models tokenizers. r = Some (Pivot models tokenizers))"
  proof (cases r)
    case None
    then show ?thesis by simp
  next
    case (Some info)
    then show ?thesis by (cases info) simp_all
  qed
  with 1 show "\<exists>r st'. get_translation_model env source_lang target_lang st = (Inr r, st') \<and>
      (r = None \<or> (\<exists>model tokenizer. r = Some (Direct model tokenizer)) \<or>
       (\<exists>models tokenizers. r = Some (Pivot models tokenizers)))"
    by blast
next
  show "\<exists>r st'. resolve env source_lang target_lang st = (Inr r, st') \<and>
      (r = NoOp \<or> (\<exists>model tokenizer. r = UseModel (Direct model tokenizer)) \<or>
       (\<exists>models tokenizers. r = UseModel (Pivot models tokenizers)) \<or> r = RemoteFallback)"
    using resolve_returns [of env source_lang target_lang st] resolve_forms by blast
next
  show "get_translation_model env ''ar'' ''en'' st = (Inr None, st)"
    by (simp add: get_translation_model_def ret_def lang_defs)
next
  show "resolve env ''ar'' ''en'' st = (Inr RemoteFallback, st)"
    by (rule resolve_ar_en)
next
  assume a: "(\<forall>t url. requests_get env t url \<noteq> Inr 200) \<and>
    cached_model (translation_models st)
      (model_variants (normalize_lang_code source_lang) (normalize_lang_code target_lang)) = None"
  define s where "s = normalize_lang_code source_lang"
  define t where "t = normalize_lang_code target_lang"
  obtain st1 where 1: "load_direct_models env (model_variants s t) st = (Inr None, st1)"
    using load_direct_models_not_found [of env "model_variants s t" st] a by blast
  have 2: "fst (load_pivot_models env s t st1) = Inr None"
    using load_pivot_models_not_found a by blast
  show "fst (get_translation_model env source_lang target_lang st) = Inr None"
    using a 1 2
    by (auto simp: get_translation_model_def Let_def s_def t_def ret_def bind_def try_except_def
        split: prod.splits sum.splits)
qed

theorem get_translation_model_never_raises_witness:
  "(\<forall>t url. requests_get offline_env t url \<noteq> Inr 200) \<and>
   cached_model (translation_models initial_state)
      (model_variants (normalize_lang_code ''fr'') (normalize_lang_code ''de'')) = None \<and>
   fst (get_translation_model offline_env ''fr'' ''de'' initial_state) = Inr None"
  using get_translation_model_never_raises [of offline_env "''fr''" "''de''" initial_state]
  by (simp add: offline_env_def initial_state_def model_variants_def)

lemma model_exists_on_hf_models:
  "translation_models (snd (model_exists_on_hf env name st)) = translation_models st"
  by (auto simp: model_exists_on_hf_def action_defs Let_def split: sum.splits)

lemma load_direct_model_models:
  "load_direct_model env name st = (r, st') \<Longrightarrow>
     (case r of
        Inr (Some info) \<Rightarrow>
          translation_models st' = AList.update name info (translation_models st)
      | _ \<Rightarrow> translation_models st' = translation_models st)"
  by (auto simp: load_direct_model_def model_exists_on_hf_def action_defs Let_def
      split: sum.splits if_splits)

lemma load_direct_models_models:
  "load_direct_models env names st = (Inr r, st') \<Longrightarrow>
     (case r of
        Some info \<Rightarrow>
          (\<exists>name \<in> set names.
             translation_models st' = AList.update name info (translation_models st))
      | None \<Rightarrow> translation_models st' = translation_models st)"
proof (induction names arbitrary: st)
  case Nil
  then show ?case by (auto simp: ret_def)
next
  case (Cons name names)
  obtain r1 st1 where 1: "load_direct_model env name st = (r1, st1)"
    by (cases "load_direct_model env name st") auto
  note m = load_direct_model_models [OF 1]
  show ?case
  proof (cases r1)
    case (Inl e)
    with 1 Cons.prems have "load_direct_models env names st1 = (Inr r, st')"
      by (simp add: bind_def try_except_def ret_def)
    from Cons.IH [OF this] m Inl show ?thesis by (auto split: option.splits)
  next
    case (Inr x)
    show ?thesis
    proof (cases x)
      case None
      with 1 Inr Cons.prems have "load_direct_models env names st1 = (Inr r, st')"
        by (simp add: bind_def try_except_def ret_def)
      from Cons.IH [OF this] m Inr None show ?thesis by (auto split: option.splits)
    next
      case (Some info)
      with 1 Inr Cons.prems have "r = Some info" "st' = st1"
        by (simp_all add: bind_def try_except_def ret_def)
      with m Inr Some show ?thesis by auto
    qed
  qed
qed

lemma cached_model_none: "cached_model models names = None \<Longrightarrow> name \<in> set names \<Longrightarrow>
    map_of models name = None"
  by (induction names) (auto split: option.splits)

lemma cached_model_after_update:
  "cached_model models names = None \<Longrightarrow> name \<in> set names \<Longrightarrow>
   cached_model (AList.update name info models) names = Some info"
proof (induction names)
  case Nil
  then show ?case by simp
next
  case (Cons n names)
  from Cons.prems(1) have n: "map_of models n = None" and rest: "cached_model models names = None"
    by (auto split: option.splits)
  show ?case
  proof (cases "n = name")
    case True
    then show ?thesis by (simp add: update_conv')
  next
    case False
    with Cons.prems have "name \<in> set names" by simp
    with Cons.IH rest False n show ?thesis by (simp add: update_conv')
  qed
qed

lemma load_pivot_models_pivot:
  "load_pivot_models env s t st = (Inr (Some info), st') \<Longrightarrow> \<exists>ms ks. info = Pivot ms ks"
  by (auto simp: load_pivot_models_def model_exists_on_hf_def action_defs Let_def
      split: sum.splits if_splits)

lemma get_translation_model_unfold:
  assumes "s = normalize_lang_code source_lang" and "t = normalize_lang_code target_lang"
    and "\<not> (s = ''ar'' \<and> t = ''en'')"
  shows "get_translation_model env source_lang target_lang st =
     (case cached_model (translation_models st) (model_variants s t) of
        Some info \<Rightarrow> (Inr (Some info), st)
      | None \<Rightarrow> resolve_uncached env s t st)"
  using assms
  by (auto simp: get_translation_model_def resolve_uncached_def Let_def ret_def
      split: option.splits)

lemma resolve_uncached_direct:
  assumes "resolve_uncached env s t st = (Inr (Some (Direct model tokenizer)), st1)"
  shows "\<exists>name \<in> set (model_variants s t).
           translation_models st1 =
             AList.update name (Direct model tokenizer) (translation_models st)"
proof -
  obtain r st2 where l: "load_direct_models env (model_variants s t) st = (Inr r, st2)"
    using load_direct_models_returns by blast
  show ?thesis
  proof (cases r)
    case (Some info)
    with l assms have eq: "info = Direct model tokenizer" "st2 = st1"
      by (simp_all add: resolve_uncached_def ret_def bind_def)
    with load_direct_models_models [OF l] Some show ?thesis by auto
  next
    case None
    show ?thesis
    proof (cases "s = ''en''")
      case True
      with l None assms show ?thesis
        by (simp add: resolve_uncached_def ret_def bind_def)
    next
      case False
      obtain r3 st3 where p: "load_pivot_models env s t st2 = (r3, st3)"
        by (cases "load_pivot_models env s t st2") auto
      with l None assms False
      have "r3 = Inr (Some (Direct model tokenizer))"
        by (cases r3) (auto simp: resolve_uncached_def ret_def bind_def try_except_def)
      with p load_pivot_models_pivot show ?thesis by blast
    qed
  qed
qed

text \<open>
  A direct model is looked up where it was stored: once \<open>get_translation_model\<close> has
  returned a direct model for a pair, the next call for the pair returns it from the
  cache, whatever the outside world answers by then, and leaves the state, with its log
  of calls, as it is.
\<close>

lemma direct_model_cached:
  assumes "get_translation_model env source_lang target_lang st =
             (Inr (Some (Direct model tokenizer)), st1)"
  shows "get_translation_model env' source_lang target_lang st1 =
             (Inr (Some (Direct model tokenizer)), st1)"
proof -
  define s where "s = normalize_lang_code source_lang"
  define t where "t = normalize_lang_code target_lang"
  have not_ar: "\<not> (s = ''ar'' \<and> t = ''en'')"
    using assms by (auto simp: get_translation_model_def Let_def s_def t_def ret_def)
  note unfold = get_translation_model_unfold [OF s_def t_def not_ar]
  show ?thesis
  proof (cases "cached_model (translation_models st) (model_variants s t)")
    case (Some info)
    with assms have "info = Direct model tokenizer" "st1 = st"
      by (simp_all add: unfold)
    with Some show ?thesis by (simp add: unfold)
  next
    case None
    with assms have "resolve_uncached env s t st = (Inr (Some (Direct model tokenizer)), st1)"
      by (simp add: unfold)
    from resolve_uncached_direct [OF this] obtain name
      where "name \<in> set (model_variants s t)"
        and "translation_models st1 =
               AList.update name (Direct model tokenizer) (translation_models st)"
      by blast
    with None have "cached_model (translation_models st1) (model_variants s t) =
        Some (Direct model tokenizer)"
      by (simp add: cached_model_after_update)
    then show ?thesis by (simp add: unfold)
  qed
qed

lemma norm_fr: "normalize_lang_code ''fr'' = ''fr''"
  by (simp add: lang_defs)

lemma norm_de: "normalize_lang_code ''de'' = ''de''"
  by (simp add: lang_defs)

lemma first_call:
  "get_translation_model pivot_env ''fr'' ''de'' initial_state =
     (Inr (Some fr_de_pivot),
      \<lparr> client = None,
        translation_models = [(''fr-de_pivot'', fr_de_pivot)],
        files = [],
        calls =
          [RequestsGet ''https://huggingface.co/api/models/Helsinki-NLP/opus-mt-fr-de'',
           RequestsGet ''https://huggingface.co/api/models/Helsinki-NLP/opus-mt-tc-big-fr-de'',
           RequestsGet ''https://huggingface.co/api/models/Helsinki-NLP/opus-mt-fr-de-big'',
           RequestsGet ''https://huggingface.co/api/models/Helsinki-NLP/opus-mt-fr-en'',
           RequestsGet ''https://huggingface.co/api/models/Helsinki-NLP/opus-mt-en-de'',
           ModelFromPretrained ''Helsinki-NLP/opus-mt-fr-en'',
           ModelFromPretrained ''Helsinki-NLP/opus-mt-en-de'',
           TokenizerFromPretrained ''Helsinki-NLP/opus-mt-fr-en'',
           TokenizerFromPretrained ''Helsinki-NLP/opus-mt-en-de''],
        yielded = [], local_video_id = None, local_audio_path = None \<rparr>)"
  by (simp add: resolver_defs action_defs norm_fr norm_de pivot_env_def offline_env_def
      initial_state_def fr_de_pivot_def Let_def)

text \<open>
  C3, on the code: where French to German resolves to a pivot pair, the pair is stored
  under the key \<open>fr-de_pivot\<close>, which the look-up of the cache never reads. The second call
  for the same pair probes the repository five times again and loads the four models
  again.
\<close>

theorem pivot_model_resolved_again:
  "fst (get_translation_model pivot_env ''fr'' ''de'' initial_state) = Inr (Some fr_de_pivot) \<and>
   map_of (translation_models after_first_call) ''fr-de_pivot'' = Some fr_de_pivot \<and>
   fst (get_translation_model pivot_env ''fr'' ''de'' after_first_call) = Inr (Some fr_de_pivot) \<and>
   calls (snd (get_translation_model pivot_env ''fr'' ''de'' after_first_call)) =
     calls after_first_call @
       [RequestsGet ''https://huggingface.co/api/models/Helsinki-NLP/opus-mt-fr-de'',
        RequestsGet ''https://huggingface.co/api/models/Helsinki-NLP/opus-mt-tc-big-fr-de'',
        RequestsGet ''https://huggingface.co/api/models/Helsinki-NLP/opus-mt-fr-de-big'',
        RequestsGet ''https://huggingface.co/api/models/Helsinki-NLP/opus-mt-fr-en'',
        RequestsGet ''https://huggingface.co/api/models/Helsinki-NLP/opus-mt-en-de'',
        ModelFromPretrained ''Helsinki-NLP/opus-mt-fr-en'',
        ModelFromPretrained ''Helsinki-NLP/opus-mt-en-de'',
        TokenizerFromPretrained ''Helsinki-NLP/opus-mt-fr-en'',
        TokenizerFromPretrained ''Helsinki-NLP/opus-mt-en-de'']"
  unfolding after_first_call_def first_call
  by (simp add: resolver_defs action_defs norm_fr norm_de pivot_env_def offline_env_def
      fr_de_pivot_def Let_def)


section \<open>Properties of the remote fallback\<close>

lemmas strip_defs = strip_def isspace_def whitespace_def

lemma ensure_initialized_client:
  "client st \<noteq> None \<Longrightarrow> ensure_initialized env st = (Inr (), st)"
  by (cases "client st") (simp_all add: ensure_initialized_def ret_def)



lemma groq_try_returns:
  "\<exists>st'. try_except
       (bind (external (ChatCompletionsCreate (system_prompt s t) text)
                (\<lambda>n. chat_completions_create env n (system_prompt s t) text))
          first_choice_content)
       (\<lambda>e. ret text) st = (Inr (remote_answer env text s t st), st') \<and> client st' = client st"
proof (cases "chat_completions_create env (length (calls st)) (system_prompt s t) text")
  case (Inl e)
  then show ?thesis by (simp add: action_defs remote_answer_def)
next
  case (Inr choices)
  show ?thesis
  proof (cases choices)
    case Nil
    with Inr show ?thesis by (simp add: action_defs remote_answer_def)
  next
    case (Cons c rest)
    with Inr show ?thesis by (cases c) (simp_all add: action_defs remote_answer_def)
  qed
qed

text \<open>With the client there, the remote fallback returns, and the client stays.\<close>

lemma groq_fallback_returns:
  assumes "client st \<noteq> None"
  shows "\<exists>st'. translate_with_groq_fallback env text s t st =
                 (Inr (remote_answer env text s t st), st') \<and> client st' \<noteq> None"
proof -
  from assms have i: "ensure_initialized env st = (Inr (), st)"
    by (rule ensure_initialized_client)
  obtain st' where "try_except
       (bind (external (ChatCompletionsCreate (system_prompt s t) text)
                (\<lambda>n. chat_completions_create env n (system_prompt s t) text))
          first_choice_content)
       (\<lambda>e. ret text) st = (Inr (remote_answer env text s t st), st')"
    and "client st' = client st"
    using groq_try_returns [of s t "text" env st] by blast
  with i assms show ?thesis
    by (simp add: translate_with_groq_fallback_def bind_def)
qed

text \<open>
  C5. The remote fallback never raises and is self-healing. A run calls
  \<open>ensure_initialized\<close> before anything is translated (line 487 of
  \<open>process_video_stream\<close>), nothing takes the client away afterwards, and
  \<open>_translate_with_groq_fallback\<close> is only called from \<open>translate_text\<close>, which the run
  reaches after that; so the fallback works in a state that has the client. In every
  such state, for every text and every pair of languages, the call returns: when the
  remote service raises, the text it was given, unchanged; when the service answers,
  the trimmed content of its first choice; and when the answer has no first choice or
  the choice has no content, so that reading it raises, the text again.
\<close>

theorem groq_fallback_never_raises:
  assumes "client st \<noteq> None"
  shows "(\<exists>st'. translate_with_groq_fallback env text s t st =
                 (Inr (remote_answer env text s t st), st') \<and> client st' \<noteq> None) \<and>
    (\<forall>e. chat_completions_create env (length (calls st)) (system_prompt s t) text = Inl e
           \<longrightarrow> remote_answer env text s t st = text) \<and>
    (\<forall>content rest.
           chat_completions_create env (length (calls st)) (system_prompt s t) text =
             Inr (Some content # rest)
           \<longrightarrow> remote_answer env text s t st = strip content) \<and>
    (\<forall>rest. chat_completions_create env (length (calls st)) (system_prompt s t) text = Inr []
             \<or> chat_completions_create env (length (calls st)) (system_prompt s t) text =
                 Inr (None # rest)
           \<longrightarrow> remote_answer env text s t st = text)"
proof -
  have "\<exists>st'. translate_with_groq_fallback env text s t st =
                 (Inr (remote_answer env text s t st), st') \<and> client st' \<noteq> None"
    using assms by (rule groq_fallback_returns)
  then show ?thesis by (auto simp: remote_answer_def)
qed

theorem groq_fallback_never_raises_witness:
  "client started_state \<noteq> None \<and>
   chat_completions_create pivot_env (length (calls started_state))
     (system_prompt ''fr'' ''de'') ''bonjour'' = Inr [Some '' bonjour '']  \<and>
   fst (translate_with_groq_fallback pivot_env ''bonjour'' ''fr'' ''de'' started_state) =
     Inr ''bonjour'' \<and>
   chat_completions_create offline_env (length (calls started_state))
     (system_prompt ''fr'' ''de'') ''bonjour'' = Inl (ExternalError ''offline'') \<and>
   fst (translate_with_groq_fallback offline_env ''bonjour'' ''fr'' ''de'' started_state) =
     Inr ''bonjour''"
proof -
  have c: "client started_state \<noteq> None"
    by (simp add: started_state_def initial_state_def)
  have 1: "chat_completions_create pivot_env (length (calls started_state))
     (system_prompt ''fr'' ''de'') ''bonjour'' = Inr [Some '' bonjour '']"
    by (simp add: pivot_env_def offline_env_def)
  have 2: "chat_completions_create offline_env (length (calls started_state))
     (system_prompt ''fr'' ''de'') ''bonjour'' = Inl (ExternalError ''offline'')"
    by (simp add: offline_env_def)
  have s: "strip '' bonjour '' = ''bonjour''"
    by (simp add: strip_defs)
  from groq_fallback_never_raises [OF c, of pivot_env "''bonjour''" "''fr''" "''de''"] 1 s
  have 3: "fst (translate_with_groq_fallback pivot_env ''bonjour'' ''fr'' ''de'' started_state) =
     Inr ''bonjour''"
    by auto
  from groq_fallback_never_raises [OF c, of offline_env "''bonjour''" "''fr''" "''de''"] 2
  have 4: "fst (translate_with_groq_fallback offline_env ''bonjour'' ''fr'' ''de'' started_state) =
     Inr ''bonjour''"
    by auto
  from c 1 2 3 4 show ?thesis by simp
qed

text \<open>
  The client is kept by every step of \<open>translate_text\<close> before the fallback, so a
  \<open>translate_text\<close> that starts with the client reaches the fallback with it.
\<close>

lemma model_exists_on_hf_client:
  "model_exists_on_hf env name st = (r, st') \<Longrightarrow> client st' = client st"
  by (auto simp: model_exists_on_hf_def action_defs Let_def split: sum.splits)

lemma load_direct_model_client:
  "load_direct_model env name st = (r, st') \<Longrightarrow> client st' = client st"
  by (auto simp: load_direct_model_def model_exists_on_hf_def action_defs Let_def
      split: sum.splits if_splits)

lemma load_direct_models_client:
  "load_direct_models env names st = (r, st') \<Longrightarrow> client st' = client st"
proof (induction names arbitrary: st)
  case Nil
  then show ?case by (simp add: ret_def)
next
  case (Cons name names)
  obtain r1 st1 where 1: "load_direct_model env name st = (r1, st1)"
    by (cases "load_direct_model env name st") auto
  note c = load_direct_model_client [OF 1]
  from Cons.prems 1 c Cons.IH show ?case
    by (cases r1) (auto simp: bind_def try_except_def ret_def split: option.splits)
qed

lemma load_pivot_models_client:
  "load_pivot_models env s t st = (r, st') \<Longrightarrow> client st' = client st"
  by (auto simp: load_pivot_models_def model_exists_on_hf_def action_defs Let_def
      split: sum.splits if_splits)

lemma get_translation_model_client:
  assumes "get_translation_model env s t st = (r, st')"
  shows "client st' = client st"
proof -
  define s' where "s' = normalize_lang_code s"
  define t' where "t' = normalize_lang_code t"
  obtain r1 st1 where 1: "load_direct_models env (model_variants s' t') st = (r1, st1)"
    by (cases "load_direct_models env (model_variants s' t') st") auto
  obtain r2 st2 where 2: "load_pivot_models env s' t' st1 = (r2, st2)"
    by (cases "load_pivot_models env s' t' st1") auto
  note c1 = load_direct_models_client [OF 1]
  note c2 = load_pivot_models_client [OF 2]
  from assms 1 2 c1 c2 show ?thesis
    by (auto simp: get_translation_model_def Let_def s'_def t'_def ret_def bind_def
        try_except_def split: option.splits sum.splits if_splits)
qed

lemma tokenizer_name_or_path_state:
  "snd (tokenizer_name_or_path info st) = st"
  by (induction info rule: tokenizer_name_or_path.induct) (simp_all add: ret_def raise_def)

lemma translate_with_model_client:
  assumes "translate_with_model env info text st = (r, st')"
  shows "client st' = client st"
proof (cases "tokenizer_name_or_path info st")
  case (Pair r0 st0)
  with tokenizer_name_or_path_state [of info st] have "st0 = st" by simp
  with Pair assms show ?thesis
    by (cases r0; cases info)
       (auto simp: translate_with_model_def run_model_def action_defs
          split: sum.splits prod.splits)
qed

text \<open>With a client, \<open>translate_text\<close> never raises.\<close>

lemma translate_text_with_client:
  assumes "client st \<noteq> None"
  shows "\<exists>r st'. translate_text env text s t st = (Inr r, st') \<and> client st' \<noteq> None"
proof -
  define s' where "s' = normalize_lang_code s"
  define t' where "t' = normalize_lang_code t"
  have fallback: "\<exists>r st'. translate_with_groq_fallback env text s' t' st0 = (Inr r, st') \<and>
      client st' \<noteq> None" if "client st0 \<noteq> None" for st0
    using groq_fallback_returns [OF that, of env "text" s' t'] by blast
  obtain m st1 where g: "get_translation_model env s' t' st = (Inr m, st1)"
    using get_translation_model_returns by blast
  have c1: "client st1 \<noteq> None"
    using get_translation_model_client [OF g] assms by simp
  show ?thesis
  proof (cases "s' = t'")
    case True
    with assms show ?thesis by (auto simp: translate_text_def s'_def t'_def ret_def Let_def)
  next
    case False
    show ?thesis
    proof (cases "s' = ''ar'' \<and> t' = ''en''")
      case True
      with False fallback [OF assms] show ?thesis
        by (auto simp: translate_text_def s'_def t'_def Let_def)
    next
      case nar: False
      show ?thesis
      proof (cases m)
        case None
        with False nar g fallback [OF c1] show ?thesis
          by (auto simp: translate_text_def s'_def t'_def bind_def Let_def)
      next
        case (Some info)
        obtain r2 st2 where w: "translate_with_model env info text st1 = (r2, st2)"
          by (cases "translate_with_model env info text st1") auto
        have c2: "client st2 \<noteq> None"
          using translate_with_model_client [OF w] c1 by simp
        show ?thesis
        proof (cases r2)
          case (Inl e)
          with False nar g Some w fallback [OF c2] show ?thesis
            by (auto simp: translate_text_def s'_def t'_def bind_def try_except_def Let_def)
        next
          case (Inr x)
          with False nar g Some w c2 show ?thesis
            by (auto simp: translate_text_def s'_def t'_def bind_def try_except_def Let_def)
        qed
      qed
    qed
  qed
qed



section \<open>Properties of the translation of the segments\<close>

lemma process_subtitle_step:
  "process_subtitle env s t sub processed st =
     (Inr (processed @ [translated_segment env s t sub st]),
      snd (translate_text env (seg_text sub) s t st))"
proof (cases "translate_text env (seg_text sub) s t st")
  case (Pair r st')
  then show ?thesis
    by (cases r) (simp_all add: process_subtitle_def translated_segment_def action_defs)
qed

lemma process_subtitles_from_char:
  "\<exists>out st'. process_subtitles_from env s t subs processed st = (Inr (processed @ out), st') \<and>
     length out = length subs \<and>
     (\<forall>i<length subs.
        out ! i = translated_segment env s t (subs ! i)
                    (snd (process_subtitles_from env s t (take i subs) processed st)))"
proof (induction subs arbitrary: processed st)
  case Nil
  then show ?case by (simp add: ret_def)
next
  case (Cons sub subs)
  define x where "x = translated_segment env s t sub st"
  define st1 where "st1 = snd (translate_text env (seg_text sub) s t st)"
  have step: "process_subtitle env s t sub processed st = (Inr (processed @ [x]), st1)"
    unfolding x_def st1_def by (rule process_subtitle_step)
  have unfold: "process_subtitles_from env s t (sub # ys) processed st =
      process_subtitles_from env s t ys (processed @ [x]) st1" for ys
    using step by (simp add: bind_def)
  from Cons.IH [of "processed @ [x]" st1]
  obtain out st' where
    1: "process_subtitles_from env s t subs (processed @ [x]) st1 = (Inr ((processed @ [x]) @ out), st')"
    and 2: "length out = length subs"
    and 3: "\<forall>i<length subs. out ! i = translated_segment env s t (subs ! i)
                    (snd (process_subtitles_from env s t (take i subs) (processed @ [x]) st1))"
    by blast
  have "process_subtitles_from env s t (sub # subs) processed st = (Inr (processed @ (x # out)), st')"
    using 1 unfold by simp
  moreover have "length (x # out) = length (sub # subs)" using 2 by simp
  moreover have "\<forall>i<length (sub # subs).
      (x # out) ! i = translated_segment env s t ((sub # subs) ! i)
          (snd (process_subtitles_from env s t (take i (sub # subs)) processed st))"
  proof (intro allI impI)
    fix i assume i: "i < length (sub # subs)"
    show "(x # out) ! i = translated_segment env s t ((sub # subs) ! i)
          (snd (process_subtitles_from env s t (take i (sub # subs)) processed st))"
    proof (cases i)
      case 0
      then show ?thesis by (simp add: x_def ret_def)
    next
      case (Suc j)
      with i have "j < length subs" by simp
      have "process_subtitles_from env s t (take i (sub # subs)) processed st =
            process_subtitles_from env s t (take j subs) (processed @ [x]) st1"
        using Suc unfold [of "take j subs"] by simp
      with 3 Suc \<open>j < length subs\<close> show ?thesis by simp
    qed
  qed
  ultimately show ?case by blast
qed

lemma process_subtitles_char:
  "\<exists>out st'. process_subtitles env subs s t st = (Inr out, st') \<and>
     length out = length subs \<and>
     (\<forall>i<length subs.
        out ! i = translated_segment env s t (subs ! i)
                    (snd (process_subtitles env (take i subs) s t st)))"
  using process_subtitles_from_char [of env s t subs "[]" st]
  by (simp add: process_subtitles_def)

text \<open>
  C4. \<open>_process_subtitles\<close> returns, with as many segments as it was given, and the
  segment at each index comes from the input segment at that index: where
  \<open>translate_text\<close> raises (in the state the loop has reached there) the input segment
  stands unchanged, so its text is the original one; where it returns, the text is what
  it returned.
\<close>

theorem process_subtitles_keeps_failed_segments:
  "\<exists>out st'. process_subtitles env subtitles s t st = (Inr out, st') \<and>
     length out = length subtitles \<and>
     (\<forall>i<length subtitles.
        (\<forall>e. fst (translate_text env (seg_text (subtitles ! i)) s t
                    (snd (process_subtitles env (take i subtitles) s t st))) = Inl e
             \<longrightarrow> out ! i = subtitles ! i \<and> seg_text (out ! i) = seg_text (subtitles ! i)) \<and>
        (\<forall>tr. fst (translate_text env (seg_text (subtitles ! i)) s t
                    (snd (process_subtitles env (take i subtitles) s t st))) = Inr tr
             \<longrightarrow> seg_text (out ! i) = tr))"
proof -
  obtain out st' where 1: "process_subtitles env subtitles s t st = (Inr out, st')"
    and 2: "length out = length subtitles"
    and 3: "\<forall>i<length subtitles.
        out ! i = translated_segment env s t (subtitles ! i)
                    (snd (process_subtitles env (take i subtitles) s t st))"
    using process_subtitles_char by blast
  show ?thesis
    using 1 2 3 by (auto simp: translated_segment_def)
qed

theorem process_subtitles_keeps_failed_segments_witness:
  "fst (translate_text offline_env (seg_text marhaban) ''ar'' ''en'' initial_state) =
     Inl (ValueError ''GROQ_API_KEY not found'') \<and>
   fst (process_subtitles offline_env [marhaban] ''ar'' ''en'' initial_state) = Inr [marhaban]"
proof -
  have t: "fst (translate_text offline_env (seg_text marhaban) ''ar'' ''en'' initial_state) =
     Inl (ValueError ''GROQ_API_KEY not found'')"
    by (simp add: translate_text_def lang_defs translate_with_groq_fallback_def
        ensure_initialized_def action_defs offline_env_def initial_state_def marhaban_def)
  have p0: "snd (process_subtitles offline_env (take 0 [marhaban]) ''ar'' ''en'' initial_state) =
      initial_state"
    by (simp add: process_subtitles_def ret_def)
  from process_subtitles_keeps_failed_segments [of offline_env "[marhaban]" "''ar''" "''en''" initial_state]
  obtain out st' where o: "process_subtitles offline_env [marhaban] ''ar'' ''en'' initial_state = (Inr out, st')"
    and l: "length out = 1"
    and k: "\<forall>e. fst (translate_text offline_env (seg_text ([marhaban] ! 0)) ''ar'' ''en''
              (snd (process_subtitles offline_env (take 0 [marhaban]) ''ar'' ''en'' initial_state))) = Inl e
            \<longrightarrow> out ! 0 = [marhaban] ! 0"
    by auto
  from k t p0 have "out ! 0 = marhaban" by simp
  with l have "out = [marhaban]" by (cases out) auto
  with o t show ?thesis by simp
qed

text \<open>
  C10. Start and end of every segment are those of the input segment at the same index,
  whether its translation succeeded or failed.
\<close>

theorem process_subtitles_preserves_timing:
  "\<exists>out st'. process_subtitles env subtitles s t st = (Inr out, st') \<and>
     length out = length subtitles \<and>
     (\<forall>i<length subtitles.
        seg_start (out ! i) = seg_start (subtitles ! i) \<and>
        seg_end (out ! i) = seg_end (subtitles ! i))"
proof -
  obtain out st' where 1: "process_subtitles env subtitles s t st = (Inr out, st')"
    and 2: "length out = length subtitles"
    and 3: "\<forall>i<length subtitles.
        out ! i = translated_segment env s t (subtitles ! i)
                    (snd (process_subtitles env (take i subtitles) s t st))"
    using process_subtitles_char by blast
  have "seg_start (translated_segment env s t sub st0) = seg_start sub \<and>
        seg_end (translated_segment env s t sub st0) = seg_end sub" for sub st0
    by (simp add: translated_segment_def split: sum.splits)
  with 1 2 3 show ?thesis by auto
qed

theorem process_subtitles_preserves_timing_witness:
  "\<exists>out. fst (process_subtitles pivot_env hola_mundo ''es'' ''en'' initial_state) = Inr out \<and>
     map seg_start out = [0, 2] \<and> map seg_end out = [2, 4]"
proof -
  from process_subtitles_preserves_timing [of pivot_env hola_mundo "''es''" "''en''" initial_state]
  obtain out st' where o: "process_subtitles pivot_env hola_mundo ''es'' ''en'' initial_state = (Inr out, st')"
    and l: "length out = length hola_mundo"
    and k: "\<forall>i<length hola_mundo.
        seg_start (out ! i) = seg_start (hola_mundo ! i) \<and>
        seg_end (out ! i) = seg_end (hola_mundo ! i)"
    by blast
  have l2: "length out = 2" using l by (simp add: hola_mundo_def)
  have "map seg_start out = map seg_start hola_mundo \<and> map seg_end out = map seg_end hola_mundo"
    using l k by (auto intro!: nth_equalityI)
  then have "map seg_start out = [0, 2] \<and> map seg_end out = [2, 4]"
    by (simp add: hola_mundo_def)
  with o show ?thesis by auto
qed



section \<open>Properties of the transcription\<close>

lemma process_raw_segment_char:
  "process_raw_segment seg acc = acc @ (if segment_is_valid seg then [cleaned seg] else [])"
  by (auto simp: process_raw_segment_def segment_is_valid_def cleaned_def
      split: option.splits)

lemma process_raw_segments_char:
  "process_raw_segments segs acc = acc @ map cleaned (filter segment_is_valid segs)"
  by (induction segs arbitrary: acc) (simp_all add: process_raw_segment_char)

lemma transcribe_with_groq_returns:
  "\<exists>r st'. transcribe_with_groq env p s t st = (Inr r, st')"
  unfolding transcribe_with_groq_def
  by (rule try_except_ret_returns)

lemma transcribe_body_no_file:
  "p \<notin> set (files st) \<Longrightarrow> \<exists>e st'. transcribe_with_groq_body env p s t st = (Inl e, st')"
  by (simp add: transcribe_with_groq_body_def open_rb_def action_defs)

lemma transcribe_body_call_failed:
  "fst (speech_call env p s t st) = Inl e \<Longrightarrow>
   \<exists>e' st'. transcribe_with_groq_body env p s t st = (Inl e', st')"
  by (cases "speech_call env p s t st")
     (auto simp: transcribe_with_groq_body_def open_rb_def action_defs)

lemma transcribe_body_ok:
  assumes "p \<in> set (files st)" and "fst (speech_call env p s t st) = Inr response"
  shows "fst (transcribe_with_groq_body env p s t st) =
     Inr \<lparr> t_segments =
             map cleaned (filter segment_is_valid
               (case segments response of Some xs \<Rightarrow> xs | None \<Rightarrow> [])),
           detected_language =
             normalize_lang_code (case language response of Some l \<Rightarrow> l | None \<Rightarrow> s),
           sample_text =
             (case (case segments response of Some xs \<Rightarrow> xs | None \<Rightarrow> []) of
                [] \<Rightarrow> []
              | first # _ \<Rightarrow> (case raw_text first of Some x \<Rightarrow> x | None \<Rightarrow> [])) \<rparr>"
  using assms
  by (cases "speech_call env p s t st")
     (auto simp: transcribe_with_groq_body_def open_rb_def action_defs Let_def
        process_raw_segments_char)

lemma transcribe_of_body:
  "fst (transcribe_with_groq env p s t st) =
     (case fst (transcribe_with_groq_body env p s t st) of
        Inl e \<Rightarrow> Inr (empty_transcription s)
      | Inr r \<Rightarrow> Inr r)"
  by (cases "transcribe_with_groq_body env p s t st")
     (auto simp: transcribe_with_groq_def try_except_def ret_def empty_transcription_def
        split: sum.splits)

text \<open>
  C6. \<open>_transcribe_with_groq\<close> returns for every input. When the audio file cannot be
  opened or the call to the speech service fails, the result has no segments and the
  language it was given. Otherwise its segments are the valid raw segments of the
  response, in their order, each with its trimmed text: a segment is in the result
  exactly when it comes from a raw segment that has start, end and text, ends after it
  starts, and has a text that is not empty once trimmed.
\<close>

theorem transcribe_with_groq_never_raises:
  "(\<exists>r st'. transcribe_with_groq env p s t st = (Inr r, st')) \<and>
   (p \<notin> set (files st) \<or> (\<exists>e. fst (speech_call env p s t st) = Inl e) \<longrightarrow>
      fst (transcribe_with_groq env p s t st) =
        Inr \<lparr> t_segments = [], detected_language = s, sample_text = [] \<rparr>) \<and>
   (\<forall>response.
      p \<in> set (files st) \<and> fst (speech_call env p s t st) = Inr response \<longrightarrow>
      (\<exists>r. fst (transcribe_with_groq env p s t st) = Inr r \<and>
           t_segments r =
             map cleaned (filter segment_is_valid
               (case segments response of Some xs \<Rightarrow> xs | None \<Rightarrow> [])) \<and>
           (\<forall>x. x \<in> set (t_segments r) \<longleftrightarrow>
                (\<exists>seg \<in> set (case segments response of Some xs \<Rightarrow> xs | None \<Rightarrow> []).
                    segment_is_valid seg \<and> x = cleaned seg))))"
proof (intro conjI impI allI)
  show "\<exists>r st'. transcribe_with_groq env p s t st = (Inr r, st')"
    by (rule transcribe_with_groq_returns)
next
  assume "p \<notin> set (files st) \<or> (\<exists>e. fst (speech_call env p s t st) = Inl e)"
  then have "\<exists>e st'. transcribe_with_groq_body env p s t st = (Inl e, st')"
    using transcribe_body_no_file transcribe_body_call_failed by blast
  then show "fst (transcribe_with_groq env p s t st) =
        Inr \<lparr> t_segments = [], detected_language = s, sample_text = [] \<rparr>"
    by (auto simp: transcribe_of_body empty_transcription_def)
next
  fix response
  assume a: "p \<in> set (files st) \<and> fst (speech_call env p s t st) = Inr response"
  define raws where "raws = (case segments response of Some xs \<Rightarrow> xs | None \<Rightarrow> [])"
  from a have "\<exists>r. fst (transcribe_with_groq env p s t st) = Inr r \<and>
           t_segments r = map cleaned (filter segment_is_valid raws)"
    using transcribe_body_ok [of p st env s t response]
    by (simp add: transcribe_of_body raws_def)
  then obtain r where r: "fst (transcribe_with_groq env p s t st) = Inr r"
      "t_segments r = map cleaned (filter segment_is_valid raws)"
    by blast
  have "\<forall>x. x \<in> set (t_segments r) \<longleftrightarrow>
          (\<exists>seg \<in> set raws. segment_is_valid seg \<and> x = cleaned seg)"
    using r(2) by auto
  with r show "\<exists>r. fst (transcribe_with_groq env p s t st) = Inr r \<and>
           t_segments r =
             map cleaned (filter segment_is_valid
               (case segments response of Some xs \<Rightarrow> xs | None \<Rightarrow> [])) \<and>
           (\<forall>x. x \<in> set (t_segments r) \<longleftrightarrow>
                (\<exists>seg \<in> set (case segments response of Some xs \<Rightarrow> xs | None \<Rightarrow> []).
                    segment_is_valid seg \<and> x = cleaned seg))"
    unfolding raws_def by blast
qed

lemma speech_whisper:
  "fst (speech_call whisper_env ''out/u.wav'' ''es'' ''fr'' ready_state) =
     Inr \<lparr> language = Some ''Spanish'', segments = Some whisper_segments \<rparr>"
  by (simp add: speech_call_def client_call_def action_defs ready_state_def initial_state_def
      whisper_env_def)

lemma whisper_segments_kept:
  "map cleaned (filter segment_is_valid whisper_segments) =
     [\<lparr> seg_start = 0, seg_end = 2, seg_text = ''Hola'' \<rparr>]"
  by (simp add: whisper_segments_def segment_is_valid_def cleaned_def strip_defs)

theorem transcribe_with_groq_never_raises_witness:
  "''out/u.wav'' \<in> set (files ready_state) \<and>
   fst (speech_call offline_env ''out/u.wav'' ''es'' ''en'' ready_state) =
     Inl (ExternalError ''offline'') \<and>
   fst (transcribe_with_groq offline_env ''out/u.wav'' ''es'' ''en'' ready_state) =
     Inr \<lparr> t_segments = [], detected_language = ''es'', sample_text = [] \<rparr> \<and>
   fst (speech_call whisper_env ''out/u.wav'' ''es'' ''fr'' ready_state) =
     Inr \<lparr> language = Some ''Spanish'', segments = Some whisper_segments \<rparr> \<and>
   (\<exists>r. fst (transcribe_with_groq whisper_env ''out/u.wav'' ''es'' ''fr'' ready_state) = Inr r \<and>
        t_segments r = [\<lparr> seg_start = 0, seg_end = 2, seg_text = ''Hola'' \<rparr>])"
proof -
  have 1: "fst (speech_call offline_env ''out/u.wav'' ''es'' ''en'' ready_state) =
     Inl (ExternalError ''offline'')"
    by (simp add: speech_call_def client_call_def action_defs ready_state_def
        initial_state_def offline_env_def)
  have 2: "''out/u.wav'' \<in> set (files ready_state)"
    by (simp add: ready_state_def initial_state_def)
  have 3: "fst (transcribe_with_groq offline_env ''out/u.wav'' ''es'' ''en'' ready_state) =
     Inr \<lparr> t_segments = [], detected_language = ''es'', sample_text = [] \<rparr>"
    using 1 transcribe_with_groq_never_raises [of offline_env "''out/u.wav''" "''es''" "''en''" ready_state] by blast
  have 4: "\<exists>r. fst (transcribe_with_groq whisper_env ''out/u.wav'' ''es'' ''fr'' ready_state) = Inr r \<and>
        t_segments r = [\<lparr> seg_start = 0, seg_end = 2, seg_text = ''Hola'' \<rparr>]"
    using 2 speech_whisper whisper_segments_kept
      transcribe_with_groq_never_raises [of whisper_env "''out/u.wav''" "''es''" "''fr''" ready_state]
    by fastforce
  show ?thesis
    using 1 2 3 4 speech_whisper by blast
qed


section \<open>Properties of the pipeline\<close>



































end
